theory Spec2Isabelle
  imports Main "HOL-Library.Word"
begin

unbundle bit_operations_syntax

section \<open>The LoRa adapter service (lora/service.go)\<close>

text \<open>
  The adapter service forwards messages of a LoRa network server to the internal message
  bus. It owns no state of its own: it holds two route-map repositories and a bus client.
  Every call of a collaborator is recorded in a log kept with that collaborator, so that
  statements such as "the channel route map is not consulted" or "one envelope is handed
  to the bus client" are statements about the model.
\<close>

subsection \<open>Errors\<close>

text \<open>
  The first four constructors are the error values declared in service.go. The others are
  the errors of the collaborators and libraries that \<open>Publish\<close> can return: they are
  values of other packages, hence different from the four of this package.
\<close>

datatype error =
    ErrMalformedIdentity
  | ErrMalformedMessage
  | ErrNotFoundDev
  | ErrNotFoundApp
  | NotFound
  | StoreUnavailable
  | CorruptInputError
  | MarshalError string
  | TimestampError
  | BrokerError string

type_synonym byte = "8 word"

subsection \<open>Constants\<close>

definition protocol :: string where
  "protocol = ''lora''"

definition thingSuffix :: string where
  "thingSuffix = ''thing''"

definition channelSuffix :: string where
  "channelSuffix = ''channel''"

definition contentType :: string where
  "contentType = ''application/json''"

subsection \<open>Route-map repository\<close>

datatype rm_call = SaveCall string string | GetCall string | RemoveCall string

text \<open>
  Modelled from the spec: the interface \<open>RouteMapRepository\<close> and its implementation are
  not part of service.go. The spec gives a keyed table with \<open>get(key)\<close>, failing with
  \<open>NotFound\<close> and free of side effects, \<open>save(key, value)\<close>, which inserts or overwrites
  the association of \<open>key\<close>, and \<open>remove(internalIdentifier)\<close>, which deletes the
  associations whose value is the identifier and is a no-op when there is none; each fails
  with \<open>StoreUnavailable\<close> when the backing store cannot be reached. The first argument
  of \<open>Save\<close> is the spec's key, the second its value. \<open>calls\<close> is the log of the calls
  received.
\<close>

record RouteMapRepository =
  table :: "string \<rightharpoonup> string"
  available :: bool
  calls :: "rm_call list"


definition Get :: "string \<Rightarrow> RouteMapRepository \<Rightarrow> (error + string) \<times> RouteMapRepository" where
  "Get key rm =
     (let rm' = rm\<lparr>calls := calls rm @ [GetCall key]\<rparr> in
      if available rm then
        (case table rm key of
           None \<Rightarrow> (Inl NotFound, rm')
         | Some val \<Rightarrow> (Inr val, rm'))
      else (Inl StoreUnavailable, rm'))"

definition Remove :: "string \<Rightarrow> RouteMapRepository \<Rightarrow> error option \<times> RouteMapRepository" where
  "Remove ident rm =
     (let rm' = rm\<lparr>calls := calls rm @ [RemoveCall ident]\<rparr> in
      if available rm then
        (None, rm'\<lparr>table := (\<lambda>key. if table rm key = Some ident then None else table rm key)\<rparr>)
      else (Some StoreUnavailable, rm'))"

subsection \<open>Messages\<close>

text \<open>
  Modelled from the spec: the type \<open>Message\<close> of the package is not part of service.go.
  These are the four fields that \<open>Publish\<close> reads; \<open>Object\<close> has Go's type
  \<open>interface{}\<close>, with \<open>None\<close> for \<open>nil\<close>.
\<close>

record 'obj Message =
  ApplicationID :: string
  DevEUI :: string
  Data :: string
  Object :: "'obj option"

record Timestamp =
  Seconds :: int
  Nanos :: int

text \<open>The fields of \<open>broker.Message\<close> that \<open>Publish\<close> sets.\<close>

record broker_Message =
  Publisher :: string
  Protocol :: string
  ContentType :: string
  Channel :: string
  Payload :: "byte list"
  Created :: Timestamp

subsection \<open>Bus client\<close>

datatype Context = Context nat

text \<open>
  Modelled from the spec: the interface \<open>broker.Nats\<close> lives in another package of the
  repository. The spec gives \<open>publish(context, token, envelope) -> error\<close>, with errors
  that this package does not interpret. \<open>reply\<close> is the answer of the bus to a call
  (\<open>None\<close> for success, otherwise the message of its error) and \<open>handed\<close> the log of
  the envelopes handed over.
\<close>

record Nats =
  reply :: "Context \<Rightarrow> string \<Rightarrow> broker_Message \<Rightarrow> string option"
  handed :: "(Context \<times> string \<times> broker_Message) list"

definition broker_Publish :: "Context \<Rightarrow> string \<Rightarrow> broker_Message \<Rightarrow> Nats \<Rightarrow> error option \<times> Nats" where
  "broker_Publish ctx token msg b =
     (map_option BrokerError (reply b ctx token msg),
      b\<lparr>handed := handed b @ [(ctx, token, msg)]\<rparr>)"

subsection \<open>Library functions used by \<open>Publish\<close>\<close>

text \<open>
  \<open>base64.StdEncoding.DecodeString\<close> of Go's standard library: the standard alphabet,
  padding with \<open>=\<close>, not strict, line feeds and carriage returns skipped. \<open>decodeMap\<close>
  is the table built from the alphabet, with \<open>None\<close> for the library's \<open>0xff\<close>.
\<close>

definition encodeStd :: string where
  "encodeStd = ''ABCDEFGHIJKLMNOPQRSTUVWXYZabcdefghijklmnopqrstuvwxyz0123456789+/''"

definition padChar :: char where
  "padChar = CHR ''=''"

fun indexOf :: "char \<Rightarrow> string \<Rightarrow> nat option" where
  "indexOf c [] = None"
| "indexOf c (x # xs) = (if c = x then Some 0 else map_option Suc (indexOf c xs))"

definition decodeMap :: "char \<Rightarrow> nat option" where
  "decodeMap c = indexOf c encodeStd"

definition isNewline :: "char \<Rightarrow> bool" where
  "isNewline c \<longleftrightarrow> c = CHR 0x0A \<or> c = CHR 0x0D"

fun skipNewlines :: "string \<Rightarrow> string" where
  "skipNewlines [] = []"
| "skipNewlines (c # cs) = (if isNewline c then skipNewlines cs else c # cs)"

text \<open>
  The end of \<open>decodeQuantum\<close>: the 6-bit values read (2, 3 or 4 of them, the missing ones
  0) are packed into a 24-bit value, of which the first \<open>dlen - 1\<close> bytes are written.
\<close>

definition quantumBytes :: "nat list \<Rightarrow> byte list" where
  "quantumBytes dbuf =
     (let d = (\<lambda>j. if j < length dbuf then dbuf ! j else 0);
          val = push_bit 18 (d 0) OR push_bit 12 (d 1) OR push_bit 6 (d 2) OR d 3
      in take (length dbuf - 1)
           [of_nat (drop_bit 16 val), of_nat (drop_bit 8 val), of_nat val])"

text \<open>
  \<open>Decode\<close> calls \<open>decodeQuantum\<close> until the input is used up. Here both loops are one
  recursion over the input that is left, \<open>dbuf\<close> holding the values of the quantum being
  read. The offset that the library puts into \<open>CorruptInputError\<close> is left out, and so
  are the bytes decoded before an error: \<open>Publish\<close> reads neither.
\<close>

fun decodeFrom :: "nat list \<Rightarrow> string \<Rightarrow> error + byte list" where
  "decodeFrom dbuf [] = (if dbuf = [] then Inr [] else Inl CorruptInputError)"
| "decodeFrom dbuf (c # cs) =
     (case decodeMap c of
        Some out \<Rightarrow>
          if length dbuf = 3 then
            (case decodeFrom [] cs of
               Inl e \<Rightarrow> Inl e
             | Inr bs \<Rightarrow> Inr (quantumBytes (dbuf @ [out]) @ bs))
          else decodeFrom (dbuf @ [out]) cs
      | None \<Rightarrow>
          if isNewline c then decodeFrom dbuf cs
          else if c \<noteq> padChar then Inl CorruptInputError
          else if length dbuf < 2 then Inl CorruptInputError
          else if length dbuf = 2 then
            (case skipNewlines cs of
               [] \<Rightarrow> Inl CorruptInputError
             | c' # cs' \<Rightarrow>
                 if c' \<noteq> padChar then Inl CorruptInputError
                 else if skipNewlines cs' \<noteq> [] then Inl CorruptInputError
                 else Inr (quantumBytes dbuf))
          else if skipNewlines cs \<noteq> [] then Inl CorruptInputError
          else Inr (quantumBytes dbuf))"

definition DecodeString :: "string \<Rightarrow> error + byte list" where
  "DecodeString s = decodeFrom [] s"

text \<open>
  \<open>ptypes.TimestampProto\<close>: the seconds and nanoseconds of a \<open>time.Time\<close>, refused when
  the seconds are before 0001-01-01 or from 10000-01-01 on, or the nanoseconds are out of
  range.
\<close>

record Time =
  Unix :: int
  Nanosecond :: int

definition minValidSeconds :: int where
  "minValidSeconds = - 62135596800"

definition maxValidSeconds :: int where
  "maxValidSeconds = 253402300800"

definition TimestampProto :: "Time \<Rightarrow> error + Timestamp" where
  "TimestampProto t =
     (let ts = \<lparr>Seconds = Unix t, Nanos = Nanosecond t\<rparr> in
      if Seconds ts < minValidSeconds then Inl TimestampError
      else if Seconds ts \<ge> maxValidSeconds then Inl TimestampError
      else if Nanos ts < 0 \<or> Nanos ts \<ge> 1000000000 then Inl TimestampError
      else Inr ts)"

subsection \<open>The service\<close>

record adapterService =
  broker :: Nats
  thingsRM :: RouteMapRepository
  channelsRM :: RouteMapRepository

definition New :: "Nats \<Rightarrow> RouteMapRepository \<Rightarrow> RouteMapRepository \<Rightarrow> adapterService" where
  "New b things channels = \<lparr>broker = b, thingsRM = things, channelsRM = channels\<rparr>"



definition RemoveThing :: "string \<Rightarrow> adapterService \<Rightarrow> error option \<times> adapterService" where
  "RemoveThing thingID as =
     (case Remove thingID (thingsRM as) of (err, rm) \<Rightarrow> (err, as\<lparr>thingsRM := rm\<rparr>))"



definition RemoveChannel :: "string \<Rightarrow> adapterService \<Rightarrow> error option \<times> adapterService" where
  "RemoveChannel chanID as =
     (case Remove chanID (channelsRM as) of (err, rm) \<Rightarrow> (err, as\<lparr>channelsRM := rm\<rparr>))"

text \<open>
  \<open>Publish\<close>. Two things come from outside: \<open>marshal\<close> stands for \<open>json.Marshal\<close> on
  the values that \<open>Object\<close> can hold (\<open>Inl\<close> the message of its error), and \<open>now\<close> is
  what \<open>time.Now()\<close> returns during the call.
\<close>

definition Publish ::
  "('obj \<Rightarrow> string + byte list) \<Rightarrow> Time \<Rightarrow> adapterService \<Rightarrow> Context \<Rightarrow> string \<Rightarrow> 'obj Message
     \<Rightarrow> error option \<times> adapterService" where
  "Publish marshal now as ctx token m =
     (case Get (DevEUI m) (thingsRM as) of
        (Inl err, trm) \<Rightarrow> (Some ErrNotFoundDev, as\<lparr>thingsRM := trm\<rparr>)
      | (Inr thing, trm) \<Rightarrow>
     (case Get (ApplicationID m) (channelsRM as) of
        (Inl err, crm) \<Rightarrow> (Some ErrNotFoundApp, as\<lparr>thingsRM := trm, channelsRM := crm\<rparr>)
      | (Inr channel, crm) \<Rightarrow>
     (let as' = as\<lparr>thingsRM := trm, channelsRM := crm\<rparr> in
      case (case Object m of
              None \<Rightarrow>
                (case DecodeString (Data m) of
                   Inl err \<Rightarrow> Inl ErrMalformedMessage
                 | Inr payload \<Rightarrow> Inr payload)
            | Some obj \<Rightarrow>
                (case marshal obj of
                   Inl err \<Rightarrow> Inl (MarshalError err)
                 | Inr jo \<Rightarrow> Inr jo)) of
        Inl err \<Rightarrow> (Some err, as')
      | Inr payload \<Rightarrow>
     (case TimestampProto now of
        Inl err \<Rightarrow> (Some err, as')
      | Inr created \<Rightarrow>
     (let msg = \<lparr>Publisher = thing, Protocol = protocol, ContentType = contentType,
                 Channel = channel, Payload = payload, Created = created\<rparr> in
      case broker_Publish ctx token msg (broker as') of
        (err, b) \<Rightarrow> (err, as'\<lparr>broker := b\<rparr>))))))"

subsection \<open>Example values\<close>


definition exampleThings :: RouteMapRepository where
  "exampleThings = \<lparr>table = [''AA:BB'' \<mapsto> ''t1''], available = True, calls = []\<rparr>"

definition exampleChannels :: RouteMapRepository where
  "exampleChannels = \<lparr>table = [''app1'' \<mapsto> ''c1''], available = True, calls = []\<rparr>"

definition exampleBus :: Nats where
  "exampleBus = \<lparr>reply = (\<lambda>ctx token msg. None), handed = []\<rparr>"

definition exampleService :: adapterService where
  "exampleService = New exampleBus exampleThings exampleChannels"

definition exampleTime :: Time where
  "exampleTime = \<lparr>Unix = 1572480000, Nanosecond = 0\<rparr>"

datatype example_object = Document string | Unsupported

fun exampleMarshal :: "example_object \<Rightarrow> string + byte list" where
  "exampleMarshal (Document s) = Inr (map of_char s)"
| "exampleMarshal Unsupported = Inl ''json: unsupported value: NaN''"

definition exampleMessage :: "example_object Message" where
  "exampleMessage =
     \<lparr>ApplicationID = ''app1'', DevEUI = ''AA:BB'', Data = ''aGVsbG8='', Object = None\<rparr>"

definition unmappedMessage :: "example_object Message" where
  "unmappedMessage =
     \<lparr>ApplicationID = ''app9'', DevEUI = ''CC:DD'', Data = ''!!!not-base64!!!'', Object = None\<rparr>"

definition badDataMessage :: "example_object Message" where
  "badDataMessage =
     \<lparr>ApplicationID = ''app1'', DevEUI = ''AA:BB'', Data = ''!!!not-base64!!!'', Object = None\<rparr>"

definition emptyDataMessage :: "example_object Message" where
  "emptyDataMessage =
     \<lparr>ApplicationID = ''app1'', DevEUI = ''AA:BB'', Data = [], Object = None\<rparr>"

definition objectMessage :: "example_object Message" where
  "objectMessage =
     \<lparr>ApplicationID = ''app1'', DevEUI = ''AA:BB'', Data = ''!!!not-base64!!!'',
      Object = Some (Document ''[21]'')\<rparr>"

definition unsupportedMessage :: "example_object Message" where
  "unsupportedMessage =
     \<lparr>ApplicationID = ''app1'', DevEUI = ''AA:BB'', Data = ''aGVsbG8='',
      Object = Some Unsupported\<rparr>"

definition downService :: adapterService where
  "downService = New exampleBus (exampleThings\<lparr>available := False\<rparr>) exampleChannels"

definition channelsDownService :: adapterService where
  "channelsDownService = New exampleBus exampleThings (exampleChannels\<lparr>available := False\<rparr>)"

section \<open>Properties\<close>

subsection \<open>Auxiliary facts\<close>

lemma Get_found:
  "available rm \<Longrightarrow> table rm key = Some v \<Longrightarrow>
   Get key rm = (Inr v, rm\<lparr>calls := calls rm @ [GetCall key]\<rparr>)"
  by (simp add: Get_def Let_def)

lemma TimestampProto_error: "TimestampProto t = Inl e \<Longrightarrow> e = TimestampError"
  by (auto simp: TimestampProto_def Let_def split: if_splits)

lemma decodeMap_hello:
  "decodeMap CHR ''a'' = Some 26" "decodeMap CHR ''G'' = Some 6" "decodeMap CHR ''V'' = Some 21"
  "decodeMap CHR ''s'' = Some 44" "decodeMap CHR ''b'' = Some 27" "decodeMap CHR ''8'' = Some 60"
  "decodeMap CHR ''='' = None" "decodeMap CHR ''!'' = None"
  by (simp_all add: decodeMap_def encodeStd_def)

lemma quantumBytes_hello:
  "quantumBytes [26, 6, 21, 44] = [104, 101, 108]" "quantumBytes [27, 6, 60] = [108, 111]"
  by (simp_all add: quantumBytes_def)

lemma DecodeString_hello: "DecodeString ''aGVsbG8='' = Inr [104, 101, 108, 108, 111]"
  by (simp add: DecodeString_def decodeMap_hello quantumBytes_hello isNewline_def padChar_def)

lemma DecodeString_not_base64: "DecodeString ''!!!not-base64!!!'' = Inl CorruptInputError"
  by (simp add: DecodeString_def decodeMap_hello isNewline_def padChar_def)

lemma exampleService_fields:
  "broker exampleService = exampleBus" "thingsRM exampleService = exampleThings"
  "channelsRM exampleService = exampleChannels"
  by (simp_all add: exampleService_def New_def)

lemma exampleTime_valid: "TimestampProto exampleTime = Inr \<lparr>Seconds = 1572480000, Nanos = 0\<rparr>"
  by (simp add: TimestampProto_def exampleTime_def minValidSeconds_def maxValidSeconds_def)

subsection \<open>Identity management\<close>






subsection \<open>Forwarding: the lookups\<close>

lemma exampleService_lookups:
  "available (thingsRM exampleService)" "table (thingsRM exampleService) ''AA:BB'' = Some ''t1''"
  "available (channelsRM exampleService)" "table (channelsRM exampleService) ''app1'' = Some ''c1''"
  by (simp_all add: exampleService_fields exampleThings_def exampleChannels_def)

text \<open>
  C3: when the thing table has no entry for the device EUI of the message, \<open>Publish\<close>
  returns \<open>ErrNotFoundDev\<close> after the one \<open>Get\<close> on the thing repository: the channel
  repository and the bus client are left as they were, not even called, and neither
  \<open>Data\<close> nor \<open>Object\<close> nor the channel table has any part in the result.
\<close>

theorem Publish_unmapped_device_fails_fast:
  "table (thingsRM as) (DevEUI m) = None \<Longrightarrow>
   Publish marshal now as ctx token m =
     (Some ErrNotFoundDev,
      as\<lparr>thingsRM := (thingsRM as)\<lparr>calls := calls (thingsRM as) @ [GetCall (DevEUI m)]\<rparr>\<rparr>)"
  by (simp add: Publish_def Get_def Let_def)

theorem Publish_unmapped_device_fails_fast_witness:
  "table (thingsRM exampleService) (DevEUI unmappedMessage) = None \<and>
   table (channelsRM exampleService) (ApplicationID unmappedMessage) = None \<and>
   fst (Publish exampleMarshal exampleTime exampleService (Context 0) ''token'' unmappedMessage) =
     Some ErrNotFoundDev \<and>
   calls (channelsRM (snd (Publish exampleMarshal exampleTime exampleService (Context 0) ''token''
     unmappedMessage))) = [] \<and>
   handed (broker (snd (Publish exampleMarshal exampleTime exampleService (Context 0) ''token''
     unmappedMessage))) = []"
proof -
  have h: "table (thingsRM exampleService) (DevEUI unmappedMessage) = None"
    by (simp add: exampleService_fields exampleThings_def unmappedMessage_def)
  have a: "table (channelsRM exampleService) (ApplicationID unmappedMessage) = None"
    by (simp add: exampleService_fields exampleChannels_def unmappedMessage_def)
  show ?thesis
    using Publish_unmapped_device_fails_fast [OF h, of exampleMarshal exampleTime "Context 0" "''token''"] h a
    by (simp add: exampleService_fields exampleChannels_def exampleBus_def)
qed

text \<open>
  C2 (as amended): when the store behind the thing repository cannot be reached, its
  \<open>Get\<close> fails with \<open>StoreUnavailable\<close> and \<open>Publish\<close> returns \<open>ErrNotFoundDev\<close>; when
  the thing is resolved and the store behind the channel repository cannot be reached,
  \<open>Publish\<close> returns \<open>ErrNotFoundApp\<close>. The error of the repository is replaced, not
  passed on.
\<close>

theorem Publish_store_unavailable_reported_not_found:
  "(\<not> available (thingsRM as) \<longrightarrow>
      fst (Get (DevEUI m) (thingsRM as)) = Inl StoreUnavailable \<and>
      fst (Publish marshal now as ctx token m) = Some ErrNotFoundDev) \<and>
   (available (thingsRM as) \<and> table (thingsRM as) (DevEUI m) = Some thing \<and>
    \<not> available (channelsRM as) \<longrightarrow>
      fst (Get (ApplicationID m) (channelsRM as)) = Inl StoreUnavailable \<and>
      fst (Publish marshal now as ctx token m) = Some ErrNotFoundApp)"
  by (simp add: Publish_def Get_def Let_def)

theorem Publish_store_unavailable_reported_not_found_witness:
  "\<not> available (thingsRM downService) \<and>
   fst (Publish exampleMarshal exampleTime downService (Context 0) ''token'' exampleMessage) =
     Some ErrNotFoundDev \<and>
   available (thingsRM channelsDownService) \<and>
   table (thingsRM channelsDownService) (DevEUI exampleMessage) = Some ''t1'' \<and>
   \<not> available (channelsRM channelsDownService) \<and>
   fst (Publish exampleMarshal exampleTime channelsDownService (Context 0) ''token'' exampleMessage) =
     Some ErrNotFoundApp"
proof -
  have d: "\<not> available (thingsRM downService)"
    by (simp add: downService_def New_def)
  have t: "available (thingsRM channelsDownService)"
    "table (thingsRM channelsDownService) (DevEUI exampleMessage) = Some ''t1''"
    by (simp_all add: channelsDownService_def New_def exampleThings_def exampleMessage_def)
  have c: "\<not> available (channelsRM channelsDownService)"
    by (simp add: channelsDownService_def New_def)
  show ?thesis
    using Publish_store_unavailable_reported_not_found
        [of downService exampleMessage exampleMarshal exampleTime "Context 0" "''token''" "''t1''"]
      Publish_store_unavailable_reported_not_found
        [of channelsDownService exampleMessage exampleMarshal exampleTime "Context 0" "''token''" "''t1''"]
      d t c
    by simp
qed

text \<open>
  The claim C2 as it was stated fails: with the thing store unreachable, the \<open>Get\<close> of
  \<open>Publish\<close> fails with \<open>StoreUnavailable\<close>, and \<open>Publish\<close> returns \<open>ErrNotFoundDev\<close>.
\<close>

theorem Publish_store_unavailable_counterexample:
  "fst (Get (DevEUI exampleMessage) (thingsRM downService)) = Inl StoreUnavailable \<and>
   fst (Publish exampleMarshal exampleTime downService (Context 0) ''token'' exampleMessage) \<noteq>
     Some StoreUnavailable"
  by (simp add: Publish_def Get_def Let_def downService_def New_def)

subsection \<open>Forwarding: the payload\<close>

lemma exampleMessage_fields:
  "ApplicationID exampleMessage = ''app1''" "DevEUI exampleMessage = ''AA:BB''"
  "Data exampleMessage = ''aGVsbG8=''" "Object exampleMessage = None"
  by (simp_all add: exampleMessage_def)

text \<open>
  C4: when \<open>Object\<close> is present, \<open>Publish\<close> does not read \<open>Data\<close>: replacing \<open>Data\<close> by
  any other text changes neither the error returned nor the state left behind, which
  holds the envelopes handed to the bus client, and the result is never
  \<open>ErrMalformedMessage\<close>.
\<close>

theorem Publish_object_ignores_data:
  "Object m = Some obj \<Longrightarrow>
   Publish marshal now as ctx token (m\<lparr>Data := d\<rparr>) = Publish marshal now as ctx token m \<and>
   fst (Publish marshal now as ctx token m) \<noteq> Some ErrMalformedMessage"
  by (auto simp: Publish_def Let_def broker_Publish_def
      split: prod.splits sum.splits dest: TimestampProto_error)

theorem Publish_object_ignores_data_witness:
  "Object objectMessage = Some (Document ''[21]'') \<and>
   DecodeString (Data objectMessage) = Inl CorruptInputError \<and>
   Publish exampleMarshal exampleTime exampleService (Context 0) ''token''
       (objectMessage\<lparr>Data := ''aGVsbG8=''\<rparr>) =
     Publish exampleMarshal exampleTime exampleService (Context 0) ''token'' objectMessage \<and>
   fst (Publish exampleMarshal exampleTime exampleService (Context 0) ''token'' objectMessage) \<noteq>
     Some ErrMalformedMessage"
proof -
  have h: "Object objectMessage = Some (Document ''[21]'')"
    by (simp add: objectMessage_def)
  have d: "DecodeString (Data objectMessage) = Inl CorruptInputError"
    by (simp add: objectMessage_def DecodeString_not_base64)
  show ?thesis
    using Publish_object_ignores_data
        [OF h, of exampleMarshal exampleTime exampleService "Context 0" "''token''" "''aGVsbG8=''"] h d
    by simp
qed

text \<open>
  C5: when \<open>Object\<close> is absent, \<open>Data\<close> is not valid base64 and both lookups succeed,
  \<open>Publish\<close> returns \<open>ErrMalformedMessage\<close> and the bus client is left as it was:
  nothing is handed to it.
\<close>

theorem Publish_bad_base64_malformed:
  "\<lbrakk>Object m = None; DecodeString (Data m) = Inl e;
    available (thingsRM as); table (thingsRM as) (DevEUI m) = Some thing;
    available (channelsRM as); table (channelsRM as) (ApplicationID m) = Some channel\<rbrakk> \<Longrightarrow>
   fst (Publish marshal now as ctx token m) = Some ErrMalformedMessage \<and>
   broker (snd (Publish marshal now as ctx token m)) = broker as"
  by (simp add: Publish_def Get_found Let_def)

theorem Publish_bad_base64_malformed_witness:
  "Object badDataMessage = None \<and>
   Data badDataMessage = ''!!!not-base64!!!'' \<and>
   DecodeString (Data badDataMessage) = Inl CorruptInputError \<and>
   table (thingsRM exampleService) (DevEUI badDataMessage) = Some ''t1'' \<and>
   table (channelsRM exampleService) (ApplicationID badDataMessage) = Some ''c1'' \<and>
   fst (Publish exampleMarshal exampleTime exampleService (Context 0) ''token'' badDataMessage) =
     Some ErrMalformedMessage \<and>
   handed (broker (snd (Publish exampleMarshal exampleTime exampleService (Context 0) ''token''
     badDataMessage))) = []"
proof -
  have o: "Object badDataMessage = None" and s: "Data badDataMessage = ''!!!not-base64!!!''"
    by (simp_all add: badDataMessage_def)
  have d: "DecodeString (Data badDataMessage) = Inl CorruptInputError"
    by (simp add: s DecodeString_not_base64)
  have t: "table (thingsRM exampleService) (DevEUI badDataMessage) = Some ''t1''"
    by (simp add: badDataMessage_def exampleService_lookups)
  have c: "table (channelsRM exampleService) (ApplicationID badDataMessage) = Some ''c1''"
    by (simp add: badDataMessage_def exampleService_lookups)
  show ?thesis
    using Publish_bad_base64_malformed
        [OF o d exampleService_lookups(1) t exampleService_lookups(3) c,
          of exampleMarshal exampleTime "Context 0" "''token''"] o s d t c
    by (simp add: exampleService_fields exampleBus_def)
qed

text \<open>
  C6 (as amended): when \<open>Object\<close> is present, its serialisation fails and both lookups
  succeed, \<open>Publish\<close> returns the error of \<open>json.Marshal\<close> as it is, which is not
  \<open>ErrMalformedMessage\<close>, and nothing is handed to the bus client.
\<close>

theorem Publish_marshal_error_propagated:
  "\<lbrakk>Object m = Some obj; marshal obj = Inl e;
    available (thingsRM as); table (thingsRM as) (DevEUI m) = Some thing;
    available (channelsRM as); table (channelsRM as) (ApplicationID m) = Some channel\<rbrakk> \<Longrightarrow>
   fst (Publish marshal now as ctx token m) = Some (MarshalError e) \<and>
   broker (snd (Publish marshal now as ctx token m)) = broker as"
  by (simp add: Publish_def Get_found Let_def)

theorem Publish_marshal_error_propagated_witness:
  "Object unsupportedMessage = Some Unsupported \<and>
   exampleMarshal Unsupported = Inl ''json: unsupported value: NaN'' \<and>
   table (thingsRM exampleService) (DevEUI unsupportedMessage) = Some ''t1'' \<and>
   table (channelsRM exampleService) (ApplicationID unsupportedMessage) = Some ''c1'' \<and>
   fst (Publish exampleMarshal exampleTime exampleService (Context 0) ''token'' unsupportedMessage) =
     Some (MarshalError ''json: unsupported value: NaN'') \<and>
   handed (broker (snd (Publish exampleMarshal exampleTime exampleService (Context 0) ''token''
     unsupportedMessage))) = []"
proof -
  have o: "Object unsupportedMessage = Some Unsupported"
    by (simp add: unsupportedMessage_def)
  have f: "exampleMarshal Unsupported = Inl ''json: unsupported value: NaN''"
    by simp
  have t: "table (thingsRM exampleService) (DevEUI unsupportedMessage) = Some ''t1''"
    by (simp add: unsupportedMessage_def exampleService_lookups)
  have c: "table (channelsRM exampleService) (ApplicationID unsupportedMessage) = Some ''c1''"
    by (simp add: unsupportedMessage_def exampleService_lookups)
  show ?thesis
    using Publish_marshal_error_propagated
        [where marshal = exampleMarshal and now = exampleTime and ctx = "Context 0"
           and token = "''token''",
          OF o f exampleService_lookups(1) t exampleService_lookups(3) c] o t c
    by (simp add: exampleService_fields exampleBus_def)
qed

text \<open>
  The claim C6 as it was stated fails: for an object that \<open>json.Marshal\<close> refuses, with
  both identities mapped, the error returned is not \<open>ErrMalformedMessage\<close>.
\<close>

theorem Publish_marshal_error_counterexample:
  "exampleMarshal (the (Object unsupportedMessage)) = Inl ''json: unsupported value: NaN'' \<and>
   fst (Publish exampleMarshal exampleTime exampleService (Context 0) ''token'' unsupportedMessage) \<noteq>
     Some ErrMalformedMessage"
  by (simp add: Publish_def Get_found exampleService_lookups unsupportedMessage_def Let_def)

subsection \<open>Forwarding: the envelope\<close>

text \<open>
  C7: when \<open>Object\<close> is absent, \<open>Data\<close> decodes to \<open>payload\<close>, the thing table resolves
  the device EUI to \<open>thing\<close>, the channel table resolves the application ID to \<open>channel\<close>,
  and the time of the call is one that \<open>ptypes.TimestampProto\<close> accepts, \<open>Publish\<close> hands
  the bus client one envelope, with the caller's context and token: publisher \<open>thing\<close>,
  channel \<open>channel\<close>, protocol \<open>lora\<close>, content type \<open>application/json\<close> and the decoded
  bytes as payload.
\<close>

theorem Publish_envelope:
  "\<lbrakk>Object m = None; DecodeString (Data m) = Inr payload;
    available (thingsRM as); table (thingsRM as) (DevEUI m) = Some thing;
    available (channelsRM as); table (channelsRM as) (ApplicationID m) = Some channel;
    TimestampProto now = Inr created\<rbrakk> \<Longrightarrow>
   handed (broker (snd (Publish marshal now as ctx token m))) =
     handed (broker as) @
       [(ctx, token,
         \<lparr>Publisher = thing, Protocol = ''lora'', ContentType = ''application/json'',
          Channel = channel, Payload = payload, Created = created\<rparr>)]"
  by (simp add: Publish_def Get_found Let_def broker_Publish_def protocol_def contentType_def)

theorem Publish_envelope_witness:
  "Object exampleMessage = None \<and>
   DecodeString (Data exampleMessage) = Inr (map of_char ''hello'') \<and>
   table (thingsRM exampleService) (DevEUI exampleMessage) = Some ''t1'' \<and>
   table (channelsRM exampleService) (ApplicationID exampleMessage) = Some ''c1'' \<and>
   TimestampProto exampleTime = Inr \<lparr>Seconds = 1572480000, Nanos = 0\<rparr> \<and>
   handed (broker (snd (Publish exampleMarshal exampleTime exampleService (Context 0) ''token''
     exampleMessage))) =
     [(Context 0, ''token'',
       \<lparr>Publisher = ''t1'', Protocol = ''lora'', ContentType = ''application/json'',
        Channel = ''c1'', Payload = map of_char ''hello'',
        Created = \<lparr>Seconds = 1572480000, Nanos = 0\<rparr>\<rparr>)]"
proof -
  have d: "DecodeString (Data exampleMessage) = Inr (map of_char ''hello'')"
    by (simp add: exampleMessage_fields DecodeString_hello)
  have t: "table (thingsRM exampleService) (DevEUI exampleMessage) = Some ''t1''"
    by (simp add: exampleMessage_fields exampleService_lookups)
  have c: "table (channelsRM exampleService) (ApplicationID exampleMessage) = Some ''c1''"
    by (simp add: exampleMessage_fields exampleService_lookups)
  show ?thesis
    using Publish_envelope
        [OF exampleMessage_fields(4) d exampleService_lookups(1) t exampleService_lookups(3) c
          exampleTime_valid, of exampleMarshal "Context 0" "''token''"]
      exampleMessage_fields(4) d t c exampleTime_valid
    by (simp add: exampleService_fields exampleBus_def)
qed

text \<open>
  C10: when \<open>Object\<close> is absent, \<open>Data\<close> is the empty text, both lookups succeed and the
  time of the call is one that \<open>ptypes.TimestampProto\<close> accepts, \<open>Publish\<close> does not
  return \<open>ErrMalformedMessage\<close>: the empty text decodes to no bytes, and the envelope
  handed to the bus client has an empty payload.
\<close>

theorem Publish_empty_data:
  "\<lbrakk>Object m = None; Data m = [];
    available (thingsRM as); table (thingsRM as) (DevEUI m) = Some thing;
    available (channelsRM as); table (channelsRM as) (ApplicationID m) = Some channel;
    TimestampProto now = Inr created\<rbrakk> \<Longrightarrow>
   DecodeString (Data m) = Inr [] \<and>
   fst (Publish marshal now as ctx token m) \<noteq> Some ErrMalformedMessage \<and>
   handed (broker (snd (Publish marshal now as ctx token m))) =
     handed (broker as) @
       [(ctx, token,
         \<lparr>Publisher = thing, Protocol = ''lora'', ContentType = ''application/json'',
          Channel = channel, Payload = [], Created = created\<rparr>)]"
  by (auto simp: Publish_def Get_found Let_def broker_Publish_def protocol_def contentType_def
      DecodeString_def)

theorem Publish_empty_data_witness:
  "Object emptyDataMessage = None \<and> Data emptyDataMessage = [] \<and>
   table (thingsRM exampleService) (DevEUI emptyDataMessage) = Some ''t1'' \<and>
   table (channelsRM exampleService) (ApplicationID emptyDataMessage) = Some ''c1'' \<and>
   fst (Publish exampleMarshal exampleTime exampleService (Context 0) ''token'' emptyDataMessage) \<noteq>
     Some ErrMalformedMessage \<and>
   handed (broker (snd (Publish exampleMarshal exampleTime exampleService (Context 0) ''token''
     emptyDataMessage))) =
     [(Context 0, ''token'',
       \<lparr>Publisher = ''t1'', Protocol = ''lora'', ContentType = ''application/json'',
        Channel = ''c1'', Payload = [], Created = \<lparr>Seconds = 1572480000, Nanos = 0\<rparr>\<rparr>)]"
proof -
  have o: "Object emptyDataMessage = None" and s: "Data emptyDataMessage = []"
    by (simp_all add: emptyDataMessage_def)
  have t: "table (thingsRM exampleService) (DevEUI emptyDataMessage) = Some ''t1''"
    by (simp add: emptyDataMessage_def exampleService_lookups)
  have c: "table (channelsRM exampleService) (ApplicationID emptyDataMessage) = Some ''c1''"
    by (simp add: emptyDataMessage_def exampleService_lookups)
  show ?thesis
    using Publish_empty_data
        [OF o s exampleService_lookups(1) t exampleService_lookups(3) c exampleTime_valid,
          of exampleMarshal "Context 0" "''token''"] o s t c
    by (simp add: exampleService_fields exampleBus_def)
qed

subsection \<open>Forwarding: the route maps\<close>

text \<open>
  C9: \<open>Publish\<close> leaves the table and the reachability of both repositories as they
  were. The thing repository receives one call, the \<open>Get\<close> of the device EUI; the channel
  repository receives either no call or one call, the \<open>Get\<close> of the application ID.
  Neither receives a \<open>Save\<close> or a \<open>Remove\<close>.
\<close>

theorem Publish_read_only:
  "(let as' = snd (Publish marshal now as ctx token m) in
      table (thingsRM as') = table (thingsRM as) \<and>
      available (thingsRM as') = available (thingsRM as) \<and>
      calls (thingsRM as') = calls (thingsRM as) @ [GetCall (DevEUI m)] \<and>
      table (channelsRM as') = table (channelsRM as) \<and>
      available (channelsRM as') = available (channelsRM as) \<and>
      (calls (channelsRM as') = calls (channelsRM as) \<or>
       calls (channelsRM as') = calls (channelsRM as) @ [GetCall (ApplicationID m)]))"
  by (auto simp: Publish_def Get_def Let_def broker_Publish_def
      split: prod.splits sum.splits option.splits)

theorem Publish_read_only_witness:
  "table (thingsRM (snd (Publish exampleMarshal exampleTime exampleService (Context 0) ''token''
     exampleMessage))) = table exampleThings \<and>
   calls (thingsRM (snd (Publish exampleMarshal exampleTime exampleService (Context 0) ''token''
     exampleMessage))) = [GetCall ''AA:BB''] \<and>
   table (channelsRM (snd (Publish exampleMarshal exampleTime exampleService (Context 0) ''token''
     exampleMessage))) = table exampleChannels"
  using Publish_read_only [of exampleMarshal exampleTime exampleService "Context 0" "''token''"
      exampleMessage]
  by (simp add: Let_def exampleService_fields exampleMessage_fields exampleThings_def)

end
